theory Spec2Isabelle
  imports Main
begin

section \<open>Time accounting of the Flohkiste duty roster\<close>

text \<open>
  A shallow embedding of the time-accounting functions of \<^verbatim>\<open>flohkiste_dienstplan.py\<close>:
  the clock-time parser and formatter, the per-day calculation, the weekly sum and the
  computation of difference and carry.

  Python's \<^verbatim>\<open>int\<close> is unbounded and is modelled as \<^typ>\<open>int\<close>. A Python \<^verbatim>\<open>str\<close> is a
  sequence of Unicode code points and is modelled as a list of natural numbers, the type
  \<open>pystr\<close>; \<open>ascii\<close> turns a literal of ASCII characters into such a list. An exception is a
  value of the type \<open>py_error\<close> on the left of a sum; the only exception the modelled
  functions raise is \<^verbatim>\<open>ValueError\<close>.
\<close>

type_synonym pystr = "nat list"

definition ascii :: "string \<Rightarrow> pystr" where
  "ascii cs = map of_char cs"

datatype py_error = ValueError pystr

subsection \<open>Characters and strings\<close>

text \<open>
  The code points for which \<^verbatim>\<open>str.isspace\<close> holds: the ASCII controls 9 to 13 and 28 to 31,
  the space, and the Unicode spaces and separators beyond.
\<close>

definition is_space :: "nat \<Rightarrow> bool" where
  "is_space c \<longleftrightarrow>
     c \<in> set [9, 10, 11, 12, 13, 28, 29, 30, 31, 32, 133, 160, 5760,
              8192, 8193, 8194, 8195, 8196, 8197, 8198, 8199, 8200, 8201, 8202,
              8232, 8233, 8239, 8287, 12288]"

text \<open>\<^verbatim>\<open>s.strip()\<close>: leading and trailing whitespace removed.\<close>

definition strip :: "pystr \<Rightarrow> pystr" where
  "strip s = rev (dropWhile is_space (rev (dropWhile is_space s)))"

text \<open>
  The decimal digits of Unicode (general category Nd), as Python 3.11 has them with the
  character database 14.0: they come in runs of ten, the digits 0 to 9 in order, and
  \<open>decimal_zeros\<close> lists the code point of the zero of each run. The class \<^verbatim>\<open>\d\<close> of a
  pattern on \<^verbatim>\<open>str\<close> is this set, and \<^verbatim>\<open>int\<close> reads each of these digits by its value.
\<close>

definition decimal_zeros :: "nat list" where
  "decimal_zeros =
     [48, 1632, 1776, 1984, 2406, 2534, 2662, 2790, 2918, 3046, 3174, 3302, 3430, 3558,
      3664, 3792, 3872, 4160, 4240, 6112, 6160, 6470, 6608, 6784, 6800, 6992, 7088, 7232,
      7248, 42528, 43216, 43264, 43472, 43504, 43600, 44016, 65296, 66720, 68912, 69734,
      69872, 69942, 70096, 70384, 70736, 70864, 71248, 71360, 71472, 71904, 72016, 72784,
      73040, 73120, 92768, 92864, 93008, 120782, 120792, 120802, 120812, 120822, 123200,
      123632, 125264, 130032]"

definition is_digit :: "nat \<Rightarrow> bool" where
  "is_digit c \<longleftrightarrow> list_ex (\<lambda>z. z \<le> c \<and> c < z + 10) decimal_zeros"

text \<open>
  The value of a decimal digit is its distance from the zero of its run. For a code point
  that is no decimal digit \<open>digit_val\<close> is 0; the parser never asks for it.
\<close>

definition digit_val :: "nat \<Rightarrow> nat" where
  "digit_val c =
     (case find (\<lambda>z. z \<le> c \<and> c < z + 10) decimal_zeros of Some z \<Rightarrow> c - z | None \<Rightarrow> 0)"

text \<open>The classes \<^verbatim>\<open>[0-2]\<close> and \<^verbatim>\<open>[0-5]\<close>: the ASCII digits from 48 on.\<close>

definition in_0_2 :: "nat \<Rightarrow> bool" where
  "in_0_2 c \<longleftrightarrow> 48 \<le> c \<and> c \<le> 50"

definition in_0_5 :: "nat \<Rightarrow> bool" where
  "in_0_5 c \<longleftrightarrow> 48 \<le> c \<and> c \<le> 53"

text \<open>
  The anchor \<^verbatim>\<open>$\<close> (without the MULTILINE flag) holds at the end of the text and just
  before a line feed, code point 10, that ends the text.
\<close>

definition at_end :: "pystr \<Rightarrow> bool" where
  "at_end r \<longleftrightarrow> r = [] \<or> r = [10]"

text \<open>
  The part \<^verbatim>\<open>:([0-5]\d)$\<close> of the pattern; the colon is code point 58; the result is
  group 2.
\<close>

fun match_minutes :: "pystr \<Rightarrow> pystr option" where
  "match_minutes (c # m1 # m2 # r) =
     (if c = 58 \<and> in_0_5 m1 \<and> is_digit m2 \<and> at_end r then Some [m1, m2] else None)"
| "match_minutes _ = None"

text \<open>
  \<^verbatim>\<open>TIME_RE.match(s)\<close> for \<^verbatim>\<open>TIME_RE = ^([0-2]?\d):([0-5]\d)$\<close>; the result is the pair
  of groups 1 and 2. The optional \<^verbatim>\<open>[0-2]\<close> is greedy: the two-character hour is tried
  first, the one-character hour after it has failed.
\<close>

definition TIME_RE_match :: "pystr \<Rightarrow> (pystr \<times> pystr) option" where
  "TIME_RE_match s =
     (case (case s of
              h1 # h2 # r \<Rightarrow>
                if in_0_2 h1 \<and> is_digit h2 then map_option (Pair [h1, h2]) (match_minutes r)
                else None
            | _ \<Rightarrow> None) of
        Some g \<Rightarrow> Some g
      | None \<Rightarrow>
          (case s of
             h # r \<Rightarrow> if is_digit h then map_option (Pair [h]) (match_minutes r) else None
           | [] \<Rightarrow> None))"

text \<open>
  \<^verbatim>\<open>int(g)\<close> for a group \<open>g\<close> of the pattern. A group holds decimal digits only
  (lemma \<open>TIME_RE_match_groups\<close> below), and on such a text \<^verbatim>\<open>int\<close> is its decimal value.
\<close>

definition int_of_digits :: "pystr \<Rightarrow> int" where
  "int_of_digits g = foldl (\<lambda>a c. 10 * a + int (digit_val c)) 0 g"

text \<open>The message of the \<^verbatim>\<open>ValueError\<close>; code point 252 is the u-umlaut.\<close>

definition format_error_message :: "pystr \<Rightarrow> pystr" where
  "format_error_message s =
     ascii ''Ung'' @ [252] @ ascii ''ltiges Zeitformat: '' @ s @
     ascii ''. Bitte HH:MM eingeben (z. B. 08:30).''"

subsection \<open>Parser and formatter\<close>

definition hhmm_to_minutes :: "pystr \<Rightarrow> py_error + int" where
  "hhmm_to_minutes s0 =
     (let s = strip s0 in
      if s = [] then Inr 0
      else
        (case TIME_RE_match s of
           None \<Rightarrow> Inl (ValueError (format_error_message s))
         | Some (g1, g2) \<Rightarrow>
             (let h = int_of_digits g1; mm = int_of_digits g2 in Inr (h * 60 + mm))))"

text \<open>The ASCII digit of a number below ten.\<close>

definition digit_char :: "nat \<Rightarrow> nat" where
  "digit_char k = 48 + k mod 10"

text \<open>The decimal digits of a natural number, as \<^verbatim>\<open>str\<close> gives them.\<close>

fun nat_digits :: "nat \<Rightarrow> pystr" where
  "nat_digits n =
     (if n < 10 then [digit_char n] else nat_digits (n div 10) @ [digit_char (n mod 10)])"

declare nat_digits.simps [simp del]

text \<open>
  The format \<^verbatim>\<open>{n:02d}\<close>: at least two characters, filled with zeros (code point 48) after
  the sign (code point 45). A negative number has its sign and at least one digit, so it is
  never filled.
\<close>

definition format_02d :: "int \<Rightarrow> pystr" where
  "format_02d n =
     (if n < 0 then 45 # nat_digits (nat (- n))
      else (let ds = nat_digits (nat n) in replicate (2 - length ds) 48 @ ds))"

text \<open>\<^verbatim>\<open>//\<close> and \<^verbatim>\<open>%\<close> round towards minus infinity, as \<open>div\<close> and \<open>mod\<close> on \<^typ>\<open>int\<close> do.\<close>

function minutes_to_hhmm :: "int \<Rightarrow> bool \<Rightarrow> pystr" where
  "minutes_to_hhmm m allow_negative =
     (if allow_negative \<and> m < 0 then ascii ''-'' @ minutes_to_hhmm (- m) False
      else (let h = m div 60; mm = m mod 60 in format_02d h @ ascii '':'' @ format_02d mm))"
  by pat_completeness auto

termination
  by (relation "measure (\<lambda>(m, allow_negative). if allow_negative then 1 else 0)") auto

declare minutes_to_hhmm.simps [simp del]

subsection \<open>Data classes\<close>

record Employee =
  emp_id :: pystr
  name :: pystr
  weekly_target_min :: int
  active :: bool
  balance_min :: int

record DayEntry =
  status :: pystr
  start1 :: pystr
  end1 :: pystr
  start2 :: pystr
  end2 :: pystr

text \<open>\<^verbatim>\<open>DayEntry()\<close>, all fields at their defaults.\<close>

definition DayEntry_default :: DayEntry where
  "DayEntry_default =
     \<lparr>status = ascii ''Arbeitstag'', start1 = [], end1 = [], start2 = [], end2 = []\<rparr>"

text \<open>
  The local function \<^verbatim>\<open>span\<close> of \<^verbatim>\<open>total_minutes_raw\<close>. The \<^verbatim>\<open>try\<close> block stops at the
  first call that raises; \<^verbatim>\<open>except ValueError\<close> turns the exception into the result 0.
\<close>

definition span :: "pystr \<Rightarrow> pystr \<Rightarrow> py_error + int" where
  "span a b =
     (case (case hhmm_to_minutes a of
              Inl e \<Rightarrow> Inl e
            | Inr am \<Rightarrow>
                (case hhmm_to_minutes b of
                   Inl e \<Rightarrow> Inl e
                 | Inr bm \<Rightarrow> Inr (max (bm - am) 0))) of
        Inl (ValueError msg) \<Rightarrow> Inr 0
      | Inr v \<Rightarrow> Inr v)"

definition total_minutes_raw :: "DayEntry \<Rightarrow> py_error + int" where
  "total_minutes_raw d =
     (case span (start1 d) (end1 d) of
        Inl e \<Rightarrow> Inl e
      | Inr x \<Rightarrow>
          (case span (start2 d) (end2 d) of
             Inl e \<Rightarrow> Inl e
           | Inr y \<Rightarrow> Inr (x + y)))"

definition net_minutes_with_pause :: "DayEntry \<Rightarrow> int \<Rightarrow> int \<Rightarrow> int \<Rightarrow> py_error + int" where
  "net_minutes_with_pause d pause_short pause_long threshold_min =
     (if status d \<noteq> ascii ''Arbeitstag'' then Inr 0
      else
        (case total_minutes_raw d of
           Inl e \<Rightarrow> Inl e
         | Inr tot \<Rightarrow>
             if tot \<le> 0 then Inr 0
             else
               (let pause = (if tot \<le> threshold_min then pause_short else pause_long)
                in Inr (max (tot - pause) 0))))"

text \<open>
  A \<^verbatim>\<open>dict\<close> keeps its keys in insertion order; \<open>days\<close> is the list of its items.
\<close>

record WeekEmployeeData =
  carry_prev_min :: int
  days :: "(pystr \<times> DayEntry) list"

definition WeekEmployeeData_default :: WeekEmployeeData where
  "WeekEmployeeData_default =
     \<lparr>carry_prev_min = 0,
      days = [(ascii ''Montag'', DayEntry_default), (ascii ''Dienstag'', DayEntry_default),
              (ascii ''Mittwoch'', DayEntry_default), (ascii ''Donnerstag'', DayEntry_default),
              (ascii ''Freitag'', DayEntry_default)]\<rparr>"

text \<open>
  \<^verbatim>\<open>sum(d.net_minutes_with_pause(...) for d in ...)\<close>: the generator is consumed from the
  left, each value added to the running total, which starts at 0.
\<close>

fun sum_net_minutes :: "int \<Rightarrow> DayEntry list \<Rightarrow> int \<Rightarrow> int \<Rightarrow> int \<Rightarrow> py_error + int" where
  "sum_net_minutes start [] pause_short pause_long threshold_min = Inr start"
| "sum_net_minutes start (d # ds) pause_short pause_long threshold_min =
     (case net_minutes_with_pause d pause_short pause_long threshold_min of
        Inl e \<Rightarrow> Inl e
      | Inr n \<Rightarrow> sum_net_minutes (start + n) ds pause_short pause_long threshold_min)"

definition weekly_ist :: "WeekEmployeeData \<Rightarrow> int \<Rightarrow> int \<Rightarrow> int \<Rightarrow> py_error + int" where
  "weekly_ist wed pause_short pause_long threshold_min =
     sum_net_minutes 0 (map snd (days wed)) pause_short pause_long threshold_min"

subsection \<open>Settings and stored weeks\<close>

record Settings =
  pause_threshold_min :: int
  pause_short_min :: int
  pause_long_min :: int
  count_vacation_as_work :: bool

text \<open>The settings that \<^verbatim>\<open>ensure_structure\<close> stores when none are present.\<close>

definition ensure_structure_settings :: Settings where
  "ensure_structure_settings =
     \<lparr>pause_threshold_min = 9 * 60 + 15, pause_short_min = 30, pause_long_min = 45,
      count_vacation_as_work = False\<rparr>"

text \<open>\<^verbatim>\<open>d.get(k, default)\<close> on a dictionary.\<close>

definition dict_get :: "('k \<rightharpoonup> 'v) \<Rightarrow> 'k \<Rightarrow> 'v \<Rightarrow> 'v" where
  "dict_get d k dflt = (case d k of None \<Rightarrow> dflt | Some v \<Rightarrow> v)"

text \<open>
  The stored dictionary of one employee in one week, \<^verbatim>\<open>empstore\<close>: the entry
  \<^verbatim>\<open>carry_prev_min\<close> and the entry \<^verbatim>\<open>days\<close>, from day name to the stored fields of the day
  (field name to text); each may be absent. The two \<^verbatim>\<open>setdefault\<close> calls of
  \<^verbatim>\<open>get_week_data\<close> give the empty dictionary, \<open>empstore_empty\<close>, for a week or an employee
  with nothing stored.
\<close>

record empstore =
  stored_carry_prev_min :: "int option"
  stored_days :: "(pystr \<rightharpoonup> (pystr \<rightharpoonup> pystr)) option"

definition empstore_empty :: empstore where
  "empstore_empty = \<lparr>stored_carry_prev_min = None, stored_days = None\<rparr>"

definition WEEKDAYS :: "pystr list" where
  "WEEKDAYS =
     [ascii ''Montag'', ascii ''Dienstag'', ascii ''Mittwoch'', ascii ''Donnerstag'',
      ascii ''Freitag'']"

text \<open>The entry that the loop of \<^verbatim>\<open>get_week_data\<close> builds for one day name.\<close>

definition get_week_data_day :: "empstore \<Rightarrow> pystr \<Rightarrow> DayEntry" where
  "get_week_data_day es day =
     (let di = dict_get (case stored_days es of None \<Rightarrow> Map.empty | Some ds \<Rightarrow> ds) day Map.empty
      in \<lparr>status = dict_get di (ascii ''status'') (ascii ''Arbeitstag''),
          start1 = dict_get di (ascii ''start1'') [], end1 = dict_get di (ascii ''end1'') [],
          start2 = dict_get di (ascii ''start2'') [], end2 = dict_get di (ascii ''end2'') []\<rparr>)"

definition get_week_data :: "empstore \<Rightarrow> WeekEmployeeData" where
  "get_week_data es =
     \<lparr>carry_prev_min = (case stored_carry_prev_min es of None \<Rightarrow> 0 | Some c \<Rightarrow> c),
      days = map (\<lambda>day. (day, get_week_data_day es day)) WEEKDAYS\<rparr>"

text \<open>
  \<^verbatim>\<open>EmployeeWeekRow.collect_week_data\<close>: the week as the row's input fields hold it. The
  carry field is parsed, a rejected text giving 0; \<open>day_vars\<close> gives the five texts of each
  day, and the row has them for each of the five day names.
\<close>

definition collect_week_data :: "pystr \<Rightarrow> (pystr \<Rightarrow> DayEntry) \<Rightarrow> WeekEmployeeData" where
  "collect_week_data carry day_vars =
     \<lparr>carry_prev_min =
        (case hhmm_to_minutes carry of Inl (ValueError msg) \<Rightarrow> 0 | Inr v \<Rightarrow> v),
      days = map (\<lambda>day. (day, day_vars day)) WEEKDAYS\<rparr>"

subsection \<open>Difference and new carry\<close>

text \<open>
  What \<^verbatim>\<open>WeekPage.save_all\<close> computes for one row before it writes the new carry into
  the employee: the weekly sum, the difference to the target and the new carry.
\<close>

definition save_all_reconcile ::
  "WeekEmployeeData \<Rightarrow> Employee \<Rightarrow> Settings \<Rightarrow> py_error + (int \<times> int \<times> int)" where
  "save_all_reconcile wed emp s =
     (let pause_t = pause_threshold_min s; pause_s = pause_short_min s;
          pause_l = pause_long_min s
      in case weekly_ist wed pause_s pause_l pause_t of
           Inl e \<Rightarrow> Inl e
         | Inr ist \<Rightarrow>
             (let weekly_soll = weekly_target_min emp;
                  diff = ist - weekly_soll;
                  new_carry = carry_prev_min wed + diff
              in Inr (ist, diff, new_carry)))"

text \<open>
  The same figures as \<^verbatim>\<open>ExportPage.export_pdf\<close> computes them for one employee, from the
  stored week.
\<close>

definition export_pdf_reconcile ::
  "empstore \<Rightarrow> Employee \<Rightarrow> Settings \<Rightarrow> py_error + (int \<times> int \<times> int)" where
  "export_pdf_reconcile es emp s =
     (let wed = get_week_data es
      in case weekly_ist wed (pause_short_min s) (pause_long_min s) (pause_threshold_min s) of
           Inl e \<Rightarrow> Inl e
         | Inr ist \<Rightarrow>
             (let soll = weekly_target_min emp;
                  diff = ist - soll;
                  new_carry = carry_prev_min wed + diff
              in Inr (ist, diff, new_carry)))"

subsection \<open>Notions used to state the properties\<close>

text \<open>
  What one span adds to the raw minutes, from the results of parsing its two boundaries:
  the length of the span, not below 0, when both were parsed, and 0 otherwise.
\<close>

fun span_contribution :: "py_error + int \<Rightarrow> py_error + int \<Rightarrow> int" where
  "span_contribution (Inr am) (Inr bm) = max (bm - am) 0"
| "span_contribution _ _ = 0"

text \<open>
  The texts that the description of the parser names: \<^verbatim>\<open>H:MM\<close> and \<^verbatim>\<open>HH:MM\<close> in ASCII digits,
  with the hour \<open>h\<close> from 0 to 29, in one digit (up to 9) or in two, and the minute \<open>m\<close> from
  00 to 59 in two digits.
\<close>

definition two_digits :: "nat \<Rightarrow> pystr" where
  "two_digits n = [digit_char (n div 10), digit_char (n mod 10)]"

definition is_clock_text :: "pystr \<Rightarrow> nat \<Rightarrow> nat \<Rightarrow> bool" where
  "is_clock_text t h m \<longleftrightarrow>
     h \<le> 29 \<and> m \<le> 59 \<and>
     (t = two_digits h @ [58] @ two_digits m \<or>
      h \<le> 9 \<and> t = digit_char h # 58 # two_digits m)"

text \<open>
  The texts that the pattern admits, with the hour and the minute that they stand for: one
  decimal digit of any script, before it at most one of the ASCII digits 0 to 2, the colon,
  one of the ASCII digits 0 to 5 and again one decimal digit of any script.
\<close>

definition is_time_text :: "pystr \<Rightarrow> nat \<Rightarrow> nat \<Rightarrow> bool" where
  "is_time_text t h m \<longleftrightarrow>
     (\<exists>a b c d.
        is_digit b \<and> in_0_5 c \<and> is_digit d \<and> m = 10 * (c - 48) + digit_val d \<and>
        (t = [b, 58, c, d] \<and> h = digit_val b \<or>
         in_0_2 a \<and> t = [a, b, 58, c, d] \<and> h = 10 * (a - 48) + digit_val b))"

section \<open>Properties of the parser and the formatter\<close>

text \<open>The tables on ASCII characters.\<close>

lemma is_digit_ascii: "c < 128 \<Longrightarrow> is_digit c \<longleftrightarrow> 48 \<le> c \<and> c \<le> 57"
  by (auto simp: is_digit_def decimal_zeros_def)

lemma digit_val_ascii: "48 \<le> c \<Longrightarrow> c \<le> 57 \<Longrightarrow> digit_val c = c - 48"
  by (simp add: digit_val_def decimal_zeros_def)


lemma is_space_ascii_digit: "48 \<le> c \<Longrightarrow> c \<le> 58 \<Longrightarrow> \<not> is_space c"
  by (auto simp: is_space_def)





lemma strip_id:
  assumes "t \<noteq> []" "\<not> is_space (hd t)" "\<not> is_space (last t)"
  shows "strip t = t"
proof -
  from assms(1,2) have "dropWhile is_space t = t"
    by (cases t) simp_all
  moreover have "dropWhile is_space (rev t) = rev t"
  proof (cases t rule: rev_cases)
    case Nil
    with assms(1) show ?thesis by simp
  next
    case (snoc xs x)
    with assms(3) show ?thesis by simp
  qed
  ultimately show ?thesis
    by (simp add: strip_def)
qed

lemma in_0_2_digit: "in_0_2 c \<Longrightarrow> is_digit c \<and> digit_val c = c - 48 \<and> c - 48 \<le> 2"
  by (auto simp: in_0_2_def is_digit_ascii digit_val_ascii)

lemma in_0_5_digit: "in_0_5 c \<Longrightarrow> is_digit c \<and> digit_val c = c - 48 \<and> c - 48 \<le> 5"
  by (auto simp: in_0_5_def is_digit_ascii digit_val_ascii)

lemma not_is_digit_colon: "\<not> is_digit 58"
  by (simp add: is_digit_ascii)

lemma digit_char_props:
  "is_digit (digit_char k)" "digit_val (digit_char k) = k mod 10"
  "in_0_2 (digit_char k) \<longleftrightarrow> k mod 10 \<le> 2" "in_0_5 (digit_char k) \<longleftrightarrow> k mod 10 \<le> 5"
  "digit_char k \<noteq> 58" "\<not> is_space (digit_char k)" "digit_char k < 128"
  by (simp_all add: digit_char_def is_digit_ascii digit_val_ascii in_0_2_def in_0_5_def
      is_space_ascii_digit)

lemma int_of_digits_two:
  "int_of_digits [a, b] = 10 * int (digit_val a) + int (digit_val b)"
  by (simp add: int_of_digits_def)

lemma int_of_digits_one: "int_of_digits [a] = int (digit_val a)"
  by (simp add: int_of_digits_def)

lemma match_minutes_SomeD:
  assumes "match_minutes u = Some g2"
  shows "\<exists>c d r. in_0_5 c \<and> is_digit d \<and> at_end r \<and> u = 58 # c # d # r \<and> g2 = [c, d]"
proof (cases u rule: match_minutes.cases)
  case (1 x m1 m2 r)
  with assms show ?thesis
    by (auto split: if_splits)
qed (use assms in simp_all)

lemma TIME_RE_match_SomeD:
  assumes "TIME_RE_match t = Some (g1, g2)"
  shows "\<exists>a b c d r. is_digit b \<and> in_0_5 c \<and> is_digit d \<and> at_end r \<and> g2 = [c, d] \<and>
           (in_0_2 a \<and> t = a # b # 58 # c # d # r \<and> g1 = [a, b] \<or>
            t = b # 58 # c # d # r \<and> g1 = [b])"
proof -
  consider
    (two) h1 h2 u where "t = h1 # h2 # u" "in_0_2 h1" "is_digit h2"
      "match_minutes u = Some g2" "g1 = [h1, h2]"
  | (one) h u where "t = h # u" "is_digit h" "match_minutes u = Some g2" "g1 = [h]"
    using assms
    by (auto simp: TIME_RE_match_def split: list.splits option.splits if_splits)
  then show ?thesis
  proof cases
    case two
    from match_minutes_SomeD [OF two(4)] obtain c d r where
      "in_0_5 c" "is_digit d" "at_end r" "u = 58 # c # d # r" "g2 = [c, d]"
      by blast
    with two show ?thesis by blast
  next
    case one
    from match_minutes_SomeD [OF one(3)] obtain c d r where
      "in_0_5 c" "is_digit d" "at_end r" "u = 58 # c # d # r" "g2 = [c, d]"
      by blast
    with one show ?thesis by blast
  qed
qed

lemma TIME_RE_match_groups:
  assumes "TIME_RE_match t = Some (g1, g2)"
  shows "g1 \<noteq> [] \<and> list_all is_digit g1 \<and> g2 \<noteq> [] \<and> list_all is_digit g2"
proof -
  from TIME_RE_match_SomeD [OF assms] obtain a b c d where
    "is_digit b" "in_0_5 c" "is_digit d" "g2 = [c, d]"
    "in_0_2 a \<and> g1 = [a, b] \<or> g1 = [b]"
    by blast
  then show ?thesis
    by (auto simp: in_0_2_digit in_0_5_digit)
qed

lemma TIME_RE_match_one_digit_hour:
  assumes "is_digit b" "in_0_5 c" "is_digit d"
  shows "TIME_RE_match [b, 58, c, d] = Some ([b], [c, d])"
  using assms by (simp add: TIME_RE_match_def at_end_def not_is_digit_colon)

lemma TIME_RE_match_two_digit_hour:
  assumes "in_0_2 a" "is_digit b" "in_0_5 c" "is_digit d"
  shows "TIME_RE_match [a, b, 58, c, d] = Some ([a, b], [c, d])"
  using assms by (simp add: TIME_RE_match_def at_end_def)

lemma is_time_text_accepted:
  assumes "is_time_text t h m"
  shows "t \<noteq> [] \<and>
         (\<exists>g1 g2. TIME_RE_match t = Some (g1, g2) \<and> int_of_digits g1 = int h \<and>
            int_of_digits g2 = int m)"
proof -
  from assms obtain a b c d where
    *: "is_digit b" "in_0_5 c" "is_digit d" "m = 10 * (c - 48) + digit_val d"
    and t: "t = [b, 58, c, d] \<and> h = digit_val b \<or>
            in_0_2 a \<and> t = [a, b, 58, c, d] \<and> h = 10 * (a - 48) + digit_val b"
    unfolding is_time_text_def by blast
  have mv: "int_of_digits [c, d] = int m"
    using * by (simp add: int_of_digits_two in_0_5_digit)
  from t show ?thesis
  proof
    assume "t = [b, 58, c, d] \<and> h = digit_val b"
    then show ?thesis
      using TIME_RE_match_one_digit_hour [OF *(1-3)] mv by (simp add: int_of_digits_one)
  next
    assume a: "in_0_2 a \<and> t = [a, b, 58, c, d] \<and> h = 10 * (a - 48) + digit_val b"
    then have "TIME_RE_match t = Some ([a, b], [c, d])"
      using TIME_RE_match_two_digit_hour * by simp
    moreover from a have "int_of_digits [a, b] = int h"
      by (simp add: int_of_digits_two in_0_2_digit)
    ultimately show ?thesis using mv a by simp
  qed
qed



lemma is_clock_text_time_text:
  assumes "is_clock_text t h m"
  shows "is_time_text t h m"
proof -
  from assms have h: "h \<le> 29" and m: "m \<le> 59"
    by (simp_all add: is_clock_text_def)
  let ?b = "digit_char (h mod 10)" and ?c = "digit_char (m div 10)" and ?d = "digit_char (m mod 10)"
  have m10: "m div 10 \<le> 5" using m by auto
  then have c: "in_0_5 ?c" "?c - 48 = m div 10"
    by (simp_all add: digit_char_def in_0_5_def)
  have d: "is_digit ?d" "digit_val ?d = m mod 10"
    by (simp_all add: digit_char_props)
  have mm: "m = 10 * (?c - 48) + digit_val ?d"
    using c d by simp
  from assms consider
    (two) "t = two_digits h @ [58] @ two_digits m"
  | (one) "h \<le> 9" "t = digit_char h # 58 # two_digits m"
    by (auto simp: is_clock_text_def)
  then show ?thesis
  proof cases
    case two
    let ?a = "digit_char (h div 10)"
    have "h div 10 \<le> 2" using h by auto
    then have a: "in_0_2 ?a" "?a - 48 = h div 10"
      by (simp_all add: digit_char_def in_0_2_def)
    have b: "is_digit ?b" "digit_val ?b = h mod 10"
      by (simp_all add: digit_char_props)
    have "h = 10 * (?a - 48) + digit_val ?b"
      using a b by simp
    moreover have "t = [?a, ?b, 58, ?c, ?d]"
      using two by (simp add: two_digits_def)
    ultimately show ?thesis
      unfolding is_time_text_def using a(1) b(1) c(1) d(1) mm by blast
  next
    case one
    have b: "is_digit (digit_char h)" "digit_val (digit_char h) = h"
      using one(1) by (simp_all add: digit_char_props)
    have "t = [digit_char h, 58, ?c, ?d]"
      using one by (simp add: two_digits_def)
    then show ?thesis
      unfolding is_time_text_def using b c(1) d(1) mm by metis
  qed
qed



lemma is_clock_text_ascii: "is_clock_text t h m \<Longrightarrow> list_all (\<lambda>c. c < 128) t"
  by (auto simp: is_clock_text_def two_digits_def digit_char_props)

text \<open>Rewrite rules that evaluate the parser on a given text.\<close>

lemmas parse_eval =
  hhmm_to_minutes_def strip_def is_space_def TIME_RE_match_def is_digit_ascii digit_val_ascii
  in_0_2_def in_0_5_def at_end_def int_of_digits_def ascii_def format_error_message_def





subsection \<open>Formatting and parsing again\<close>

text \<open>
  For \<open>0 \<le> m \<le> 1799\<close> the formatted text is parsed back to \<open>m\<close>, with either value of
  \<^verbatim>\<open>allow_negative\<close>. For \<open>m < 0\<close> the text formatted with \<^verbatim>\<open>allow_negative\<close> starts with a
  minus sign, code point 45, which the pattern of the parser does not admit: the parser
  raises.
\<close>

lemma nat_digits_less_100:
  "k < 100 \<Longrightarrow> replicate (2 - length (nat_digits k)) 48 @ nat_digits k = two_digits k"
proof (cases "k < 10")
  case True
  then show ?thesis
    by (simp add: nat_digits.simps [of k] two_digits_def digit_char_def)
next
  case False
  assume "k < 100"
  with False have "k div 10 < 10" by simp
  with False show ?thesis
    by (simp add: nat_digits.simps [of k] nat_digits.simps [of "k div 10"] two_digits_def)
qed

lemma format_02d_two_digits: "0 \<le> n \<Longrightarrow> n < 100 \<Longrightarrow> format_02d n = two_digits (nat n)"
  by (simp add: format_02d_def Let_def nat_digits_less_100)

lemma minutes_to_hhmm_nonneg:
  assumes "0 \<le> m" "m \<le> 1799"
  shows "minutes_to_hhmm m flag = two_digits (nat (m div 60)) @ [58] @ two_digits (nat (m mod 60))"
proof -
  from assms have "0 \<le> m div 60" "m div 60 < 100" "0 \<le> m mod 60" "m mod 60 < 100"
    by auto
  then show ?thesis
    using assms(1)
    by (simp add: minutes_to_hhmm.simps [of m flag] Let_def format_02d_two_digits ascii_def)
qed

lemma hhmm_to_minutes_clock_text:
  assumes "is_clock_text t h m"
  shows "hhmm_to_minutes t = Inr (int h * 60 + int m)"
proof -
  from assms have "t \<noteq> []" "\<not> is_space (hd t)" "\<not> is_space (last t)"
    by (auto simp: is_clock_text_def two_digits_def digit_char_props)
  then have "strip t = t" by (rule strip_id)
  moreover obtain g1 g2 where "TIME_RE_match t = Some (g1, g2)"
    "int_of_digits g1 = int h" "int_of_digits g2 = int m"
    using is_time_text_accepted [OF is_clock_text_time_text [OF assms]] by blast
  ultimately show ?thesis
    using \<open>t \<noteq> []\<close> by (simp add: hhmm_to_minutes_def)
qed

lemma roundtrip_nonneg:
  assumes "0 \<le> m" "m \<le> 1799"
  shows "hhmm_to_minutes (minutes_to_hhmm m flag) = Inr m"
proof -
  let ?h = "nat (m div 60)" and ?mm = "nat (m mod 60)"
  from assms have b: "?h \<le> 29" "?mm \<le> 59" by auto
  have "is_clock_text (minutes_to_hhmm m flag) ?h ?mm"
    using b by (simp add: minutes_to_hhmm_nonneg [OF assms] is_clock_text_def)
  then have "hhmm_to_minutes (minutes_to_hhmm m flag) = Inr (int ?h * 60 + int ?mm)"
    by (rule hhmm_to_minutes_clock_text)
  moreover have "int ?h * 60 + int ?mm = m"
  proof -
    from assms have "0 \<le> m div 60" "0 \<le> m mod 60" by auto
    then show ?thesis by simp
  qed
  ultimately show ?thesis by simp
qed

lemma TIME_RE_match_minus: "TIME_RE_match (45 # u) = None"
  by (simp add: TIME_RE_match_def is_digit_ascii in_0_2_def split: list.splits)

lemma minutes_to_hhmm_negative:
  assumes "m < 0"
  shows "minutes_to_hhmm m True =
           45 # (format_02d ((- m) div 60) @ [58] @ two_digits (nat ((- m) mod 60)))"
proof -
  have "format_02d ((- m) mod 60) = two_digits (nat ((- m) mod 60))"
    by (simp add: format_02d_two_digits)
  then show ?thesis
    using assms
    by (simp add: minutes_to_hhmm.simps [of m True] minutes_to_hhmm.simps [of "- m" False]
        Let_def ascii_def)
qed

lemma roundtrip_negative:
  assumes "m < 0"
  shows "hhmm_to_minutes (minutes_to_hhmm m True) =
           Inl (ValueError (format_error_message (minutes_to_hhmm m True)))"
proof -
  note t = minutes_to_hhmm_negative [OF assms]
  have "last (minutes_to_hhmm m True) = digit_char (nat ((- m) mod 60) mod 10)"
    unfolding t by (simp add: two_digits_def)
  then have "\<not> is_space (last (minutes_to_hhmm m True))"
    by (simp add: digit_char_props)
  moreover have "\<not> is_space (hd (minutes_to_hhmm m True))"
    unfolding t by (simp add: is_space_def)
  moreover have ne: "minutes_to_hhmm m True \<noteq> []"
    unfolding t by simp
  ultimately have "strip (minutes_to_hhmm m True) = minutes_to_hhmm m True"
    using strip_id by blast
  moreover have "TIME_RE_match (minutes_to_hhmm m True) = None"
    unfolding t by (rule TIME_RE_match_minus)
  ultimately show ?thesis
    using ne by (simp add: hhmm_to_minutes_def)
qed

lemma minutes_to_hhmm_minus_90: "minutes_to_hhmm (- 90) True = ascii ''-01:30''"
proof -
  have "format_02d 1 = [48, 49]"
    using format_02d_two_digits [of 1] by (simp add: two_digits_def digit_char_def)
  then show ?thesis
    using minutes_to_hhmm_negative [of "- 90"]
    by (simp add: two_digits_def digit_char_def ascii_def)
qed

text \<open>
  Claim C3 asks that a text formatted with \<^verbatim>\<open>allow_negative\<close> is parsed back to the same
  minutes, also for negative minutes. At \<open>- 90\<close> the formatter gives \<^verbatim>\<open>-01:30\<close> and the parser
  raises \<^verbatim>\<open>ValueError\<close> on it.
\<close>

theorem roundtrip_fails_at_minus_90:
  "minutes_to_hhmm (- 90) True = ascii ''-01:30'' \<and>
   hhmm_to_minutes (minutes_to_hhmm (- 90) True) =
     Inl (ValueError (format_error_message (ascii ''-01:30''))) \<and>
   hhmm_to_minutes (minutes_to_hhmm (- 90) True) \<noteq> Inr (- 90)"
proof -
  have "hhmm_to_minutes (ascii ''-01:30'') =
     Inl (ValueError (format_error_message (ascii ''-01:30'')))"
    by (simp add: parse_eval)
  then show ?thesis
    by (simp add: minutes_to_hhmm_minus_90)
qed

section \<open>Properties of the day calculation\<close>

lemma span_value:
  "span a b =
     Inr (case hhmm_to_minutes a of
            Inl e \<Rightarrow> 0
          | Inr am \<Rightarrow> (case hhmm_to_minutes b of Inl e \<Rightarrow> 0 | Inr bm \<Rightarrow> max (bm - am) 0))"
  by (simp add: span_def split: sum.splits py_error.splits)

lemma span_nonneg: "\<exists>v. span a b = Inr v \<and> 0 \<le> v"
  by (simp add: span_value split: sum.splits)

lemma total_minutes_raw_nonneg: "\<exists>raw. total_minutes_raw d = Inr raw \<and> 0 \<le> raw"
proof -
  obtain x where x: "span (start1 d) (end1 d) = Inr x" "0 \<le> x"
    using span_nonneg by blast
  obtain y where y: "span (start2 d) (end2 d) = Inr y" "0 \<le> y"
    using span_nonneg by blast
  show ?thesis
    using x y by (simp add: total_minutes_raw_def)
qed

lemma net_minutes_with_pause_value:
  "total_minutes_raw d = Inr raw \<Longrightarrow>
   net_minutes_with_pause d ps pl th =
     Inr (if status d \<noteq> ascii ''Arbeitstag'' then 0
          else if raw \<le> 0 then 0
          else if raw \<le> th then max (raw - ps) 0
          else max (raw - pl) 0)"
  by (simp add: net_minutes_with_pause_def Let_def)

lemma net_minutes_with_pause_nonneg:
  "\<exists>n. net_minutes_with_pause d ps pl th = Inr n \<and> 0 \<le> n"
proof -
  obtain raw where "total_minutes_raw d = Inr raw"
    using total_minutes_raw_nonneg by blast
  then show ?thesis
    by (simp add: net_minutes_with_pause_value)
qed

lemmas day_eval = total_minutes_raw_def span_def parse_eval

lemma net_minutes_with_pause_default:
  "net_minutes_with_pause DayEntry_default ps pl th = Inr 0"
proof -
  have "total_minutes_raw DayEntry_default = Inr 0"
    by (simp add: DayEntry_default_def day_eval)
  then show ?thesis
    by (simp add: net_minutes_with_pause_value)
qed

text \<open>
  Claim C1. A day whose status is not \<^verbatim>\<open>Arbeitstag\<close> has net minutes 0 whatever its times
  are. For a working day with raw minutes \<open>raw\<close> the net minutes are 0 when \<open>raw \<le> 0\<close>,
  \<open>max (raw - short) 0\<close> when \<open>0 < raw \<le> threshold\<close> and \<open>max (raw - long) 0\<close> when
  \<open>raw > threshold\<close>. With threshold 555, short pause 30 and long pause 45, a working day
  of 555 raw minutes has 525 net minutes and one of 556 raw minutes has 511.
\<close>

theorem net_minutes_with_pause_rule:
  "(\<exists>raw. total_minutes_raw d = Inr raw \<and>
      net_minutes_with_pause d short long threshold =
        Inr (if status d \<noteq> ascii ''Arbeitstag'' then 0
             else if raw \<le> 0 then 0
             else if raw \<le> threshold then max (raw - short) 0
             else max (raw - long) 0)) \<and>
   (status d = ascii ''Arbeitstag'' \<and> total_minutes_raw d = Inr 555 \<longrightarrow>
      net_minutes_with_pause d 30 45 555 = Inr 525) \<and>
   (status d = ascii ''Arbeitstag'' \<and> total_minutes_raw d = Inr 556 \<longrightarrow>
      net_minutes_with_pause d 30 45 555 = Inr 511)"
proof -
  obtain raw where raw: "total_minutes_raw d = Inr raw"
    using total_minutes_raw_nonneg by blast
  have "net_minutes_with_pause d short long threshold =
        Inr (if status d \<noteq> ascii ''Arbeitstag'' then 0
             else if raw \<le> 0 then 0
             else if raw \<le> threshold then max (raw - short) 0
             else max (raw - long) 0)"
    using raw by (rule net_minutes_with_pause_value)
  moreover have "status d = ascii ''Arbeitstag'' \<and> total_minutes_raw d = Inr 555 \<longrightarrow>
      net_minutes_with_pause d 30 45 555 = Inr 525"
    by (simp add: net_minutes_with_pause_value)
  moreover have "status d = ascii ''Arbeitstag'' \<and> total_minutes_raw d = Inr 556 \<longrightarrow>
      net_minutes_with_pause d 30 45 555 = Inr 511"
    by (simp add: net_minutes_with_pause_value)
  ultimately show ?thesis using raw by blast
qed

text \<open>
  The boundary on two days: 08:00 to 17:15 is 555 raw minutes; 08:00 to 12:00 and 12:30 to
  17:46 are 556.
\<close>

theorem net_minutes_with_pause_rule_witness:
  "net_minutes_with_pause
     \<lparr>status = ascii ''Arbeitstag'', start1 = ascii ''08:00'', end1 = ascii ''17:15'',
      start2 = [], end2 = []\<rparr>
     30 45 555 = Inr 525 \<and>
   net_minutes_with_pause
     \<lparr>status = ascii ''Arbeitstag'', start1 = ascii ''08:00'', end1 = ascii ''12:00'',
      start2 = ascii ''12:30'', end2 = ascii ''17:46''\<rparr>
     30 45 555 = Inr 511"
proof -
  let ?a = "\<lparr>status = ascii ''Arbeitstag'', start1 = ascii ''08:00'', end1 = ascii ''17:15'',
             start2 = [], end2 = []\<rparr>"
  let ?b = "\<lparr>status = ascii ''Arbeitstag'', start1 = ascii ''08:00'', end1 = ascii ''12:00'',
             start2 = ascii ''12:30'', end2 = ascii ''17:46''\<rparr>"
  have a: "status ?a = ascii ''Arbeitstag'' \<and> total_minutes_raw ?a = Inr 555"
    by (simp add: day_eval)
  have b: "status ?b = ascii ''Arbeitstag'' \<and> total_minutes_raw ?b = Inr 556"
    by (simp add: day_eval)
  have "net_minutes_with_pause ?a 30 45 555 = Inr 525"
    using net_minutes_with_pause_rule [of ?a] a by blast
  moreover have "net_minutes_with_pause ?b 30 45 555 = Inr 511"
    using net_minutes_with_pause_rule [of ?b] b by blast
  ultimately show ?thesis
    by (intro conjI)
qed

text \<open>
  Claim C4, as stated, fails: a span whose start is missing and whose end is 08:00 adds 480
  minutes, not 0, because the empty text is parsed as 0.
\<close>

theorem total_minutes_raw_missing_start:
  "total_minutes_raw
     \<lparr>status = ascii ''Arbeitstag'', start1 = [], end1 = ascii ''08:00'', start2 = [], end2 = []\<rparr>
   = Inr 480 \<and>
   total_minutes_raw
     \<lparr>status = ascii ''Arbeitstag'', start1 = [], end1 = ascii ''08:00'', start2 = [], end2 = []\<rparr>
   \<noteq> Inr 0"
  by (simp add: day_eval)

text \<open>
  Claim C4, amended. The raw minutes are the sum over the two spans, where a span whose
  two boundaries are both parsed adds \<open>max (end - start) 0\<close>, so never a negative amount,
  and a span with a boundary that is not parsed adds 0. (An empty or blank boundary is
  parsed, as 0.)
\<close>

theorem total_minutes_raw_spans:
  "total_minutes_raw d =
     Inr (span_contribution (hhmm_to_minutes (start1 d)) (hhmm_to_minutes (end1 d)) +
          span_contribution (hhmm_to_minutes (start2 d)) (hhmm_to_minutes (end2 d)))"
  by (simp add: total_minutes_raw_def span_value split: sum.splits)

section \<open>Properties of the weekly sum\<close>

lemma sum_net_minutes_nonneg:
  "0 \<le> start \<Longrightarrow> \<exists>w. sum_net_minutes start ds ps pl th = Inr w \<and> 0 \<le> w"
proof (induction ds arbitrary: start)
  case Nil
  then show ?case by simp
next
  case (Cons d ds)
  obtain n where n: "net_minutes_with_pause d ps pl th = Inr n" "0 \<le> n"
    using net_minutes_with_pause_nonneg by blast
  with Cons.prems have "0 \<le> start + n" by simp
  from Cons.IH [OF this] n show ?case by simp
qed

lemma weekly_ist_nonneg: "\<exists>w. weekly_ist wed ps pl th = Inr w \<and> 0 \<le> w"
  by (simp add: weekly_ist_def sum_net_minutes_nonneg)

lemma weekly_ist_five_days:
  "\<exists>n1 n2 n3 n4 n5.
      net_minutes_with_pause d1 ps pl th = Inr n1 \<and>
      net_minutes_with_pause d2 ps pl th = Inr n2 \<and>
      net_minutes_with_pause d3 ps pl th = Inr n3 \<and>
      net_minutes_with_pause d4 ps pl th = Inr n4 \<and>
      net_minutes_with_pause d5 ps pl th = Inr n5 \<and>
      weekly_ist \<lparr>carry_prev_min = c,
                  days = [(k1, d1), (k2, d2), (k3, d3), (k4, d4), (k5, d5)]\<rparr> ps pl th =
        Inr (n1 + n2 + n3 + n4 + n5)"
proof -
  obtain n1 where n1: "net_minutes_with_pause d1 ps pl th = Inr n1"
    using net_minutes_with_pause_nonneg by blast
  obtain n2 where n2: "net_minutes_with_pause d2 ps pl th = Inr n2"
    using net_minutes_with_pause_nonneg by blast
  obtain n3 where n3: "net_minutes_with_pause d3 ps pl th = Inr n3"
    using net_minutes_with_pause_nonneg by blast
  obtain n4 where n4: "net_minutes_with_pause d4 ps pl th = Inr n4"
    using net_minutes_with_pause_nonneg by blast
  obtain n5 where n5: "net_minutes_with_pause d5 ps pl th = Inr n5"
    using net_minutes_with_pause_nonneg by blast
  have "weekly_ist \<lparr>carry_prev_min = c,
                  days = [(k1, d1), (k2, d2), (k3, d3), (k4, d4), (k5, d5)]\<rparr> ps pl th =
        Inr (n1 + n2 + n3 + n4 + n5)"
    using n1 n2 n3 n4 n5 by (simp add: weekly_ist_def)
  with n1 n2 n3 n4 n5 show ?thesis by blast
qed

lemma get_week_data_days:
  "get_week_data es =
     \<lparr>carry_prev_min = (case stored_carry_prev_min es of None \<Rightarrow> 0 | Some c \<Rightarrow> c),
      days = [(ascii ''Montag'', get_week_data_day es (ascii ''Montag'')),
              (ascii ''Dienstag'', get_week_data_day es (ascii ''Dienstag'')),
              (ascii ''Mittwoch'', get_week_data_day es (ascii ''Mittwoch'')),
              (ascii ''Donnerstag'', get_week_data_day es (ascii ''Donnerstag'')),
              (ascii ''Freitag'', get_week_data_day es (ascii ''Freitag''))]\<rparr>"
  by (simp add: get_week_data_def WEEKDAYS_def)

lemma get_week_data_day_value:
  "get_week_data_day es day =
     (case stored_days es of
        None \<Rightarrow> DayEntry_default
      | Some ds \<Rightarrow>
          (case ds day of
             None \<Rightarrow> DayEntry_default
           | Some di \<Rightarrow>
               \<lparr>status = (case di (ascii ''status'') of None \<Rightarrow> ascii ''Arbeitstag'' | Some v \<Rightarrow> v),
                start1 = (case di (ascii ''start1'') of None \<Rightarrow> [] | Some v \<Rightarrow> v),
                end1 = (case di (ascii ''end1'') of None \<Rightarrow> [] | Some v \<Rightarrow> v),
                start2 = (case di (ascii ''start2'') of None \<Rightarrow> [] | Some v \<Rightarrow> v),
                end2 = (case di (ascii ''end2'') of None \<Rightarrow> [] | Some v \<Rightarrow> v)\<rparr>))"
  by (simp add: get_week_data_day_def dict_get_def DayEntry_default_def split: option.splits)

text \<open>
  Claim C5. For every week record with the five entries Montag to Freitag, whatever the
  entries and the carry are, the weekly sum is the sum of the net minutes of the five
  entries. The week read from the store and the week collected from the input fields are
  such records: they have these five entries and no other. An entry read from the store
  has the stored texts, each absent one replaced by its default; a day with nothing stored
  is the default entry, a working day without times, and adds 0. The week that the data
  class builds by default has the same five days, and its sum is 0.
\<close>

theorem weekly_ist_five_weekdays:
  "(\<exists>n1 n2 n3 n4 n5.
      net_minutes_with_pause d1 ps pl th = Inr n1 \<and>
      net_minutes_with_pause d2 ps pl th = Inr n2 \<and>
      net_minutes_with_pause d3 ps pl th = Inr n3 \<and>
      net_minutes_with_pause d4 ps pl th = Inr n4 \<and>
      net_minutes_with_pause d5 ps pl th = Inr n5 \<and>
      weekly_ist
        \<lparr>carry_prev_min = c,
         days = [(ascii ''Montag'', d1), (ascii ''Dienstag'', d2), (ascii ''Mittwoch'', d3),
                 (ascii ''Donnerstag'', d4), (ascii ''Freitag'', d5)]\<rparr> ps pl th =
        Inr (n1 + n2 + n3 + n4 + n5)) \<and>
   (\<exists>n1 n2 n3 n4 n5.
      net_minutes_with_pause (get_week_data_day es (ascii ''Montag'')) ps pl th = Inr n1 \<and>
      net_minutes_with_pause (get_week_data_day es (ascii ''Dienstag'')) ps pl th = Inr n2 \<and>
      net_minutes_with_pause (get_week_data_day es (ascii ''Mittwoch'')) ps pl th = Inr n3 \<and>
      net_minutes_with_pause (get_week_data_day es (ascii ''Donnerstag'')) ps pl th = Inr n4 \<and>
      net_minutes_with_pause (get_week_data_day es (ascii ''Freitag'')) ps pl th = Inr n5 \<and>
      weekly_ist (get_week_data es) ps pl th = Inr (n1 + n2 + n3 + n4 + n5)) \<and>
   days (get_week_data es) =
     [(ascii ''Montag'', get_week_data_day es (ascii ''Montag'')),
      (ascii ''Dienstag'', get_week_data_day es (ascii ''Dienstag'')),
      (ascii ''Mittwoch'', get_week_data_day es (ascii ''Mittwoch'')),
      (ascii ''Donnerstag'', get_week_data_day es (ascii ''Donnerstag'')),
      (ascii ''Freitag'', get_week_data_day es (ascii ''Freitag''))] \<and>
   days (collect_week_data carry day_vars) =
     [(ascii ''Montag'', day_vars (ascii ''Montag'')),
      (ascii ''Dienstag'', day_vars (ascii ''Dienstag'')),
      (ascii ''Mittwoch'', day_vars (ascii ''Mittwoch'')),
      (ascii ''Donnerstag'', day_vars (ascii ''Donnerstag'')),
      (ascii ''Freitag'', day_vars (ascii ''Freitag''))] \<and>
   get_week_data_day es day =
     (case stored_days es of
        None \<Rightarrow> DayEntry_default
      | Some ds \<Rightarrow>
          (case ds day of
             None \<Rightarrow> DayEntry_default
           | Some di \<Rightarrow>
               \<lparr>status = (case di (ascii ''status'') of None \<Rightarrow> ascii ''Arbeitstag'' | Some v \<Rightarrow> v),
                start1 = (case di (ascii ''start1'') of None \<Rightarrow> [] | Some v \<Rightarrow> v),
                end1 = (case di (ascii ''end1'') of None \<Rightarrow> [] | Some v \<Rightarrow> v),
                start2 = (case di (ascii ''start2'') of None \<Rightarrow> [] | Some v \<Rightarrow> v),
                end2 = (case di (ascii ''end2'') of None \<Rightarrow> [] | Some v \<Rightarrow> v)\<rparr>)) \<and>
   (stored_days es = None \<or> (\<exists>ds. stored_days es = Some ds \<and> ds day = None) \<longrightarrow>
      get_week_data_day es day = DayEntry_default \<and>
      net_minutes_with_pause (get_week_data_day es day) ps pl th = Inr 0) \<and>
   DayEntry_default =
     \<lparr>status = ascii ''Arbeitstag'', start1 = [], end1 = [], start2 = [], end2 = []\<rparr> \<and>
   net_minutes_with_pause DayEntry_default ps pl th = Inr 0 \<and>
   map fst (days WeekEmployeeData_default) =
     [ascii ''Montag'', ascii ''Dienstag'', ascii ''Mittwoch'', ascii ''Donnerstag'',
      ascii ''Freitag''] \<and>
   weekly_ist WeekEmployeeData_default ps pl th = Inr 0"
proof (intro conjI)
  show "\<exists>n1 n2 n3 n4 n5.
      net_minutes_with_pause d1 ps pl th = Inr n1 \<and>
      net_minutes_with_pause d2 ps pl th = Inr n2 \<and>
      net_minutes_with_pause d3 ps pl th = Inr n3 \<and>
      net_minutes_with_pause d4 ps pl th = Inr n4 \<and>
      net_minutes_with_pause d5 ps pl th = Inr n5 \<and>
      weekly_ist
        \<lparr>carry_prev_min = c,
         days = [(ascii ''Montag'', d1), (ascii ''Dienstag'', d2), (ascii ''Mittwoch'', d3),
                 (ascii ''Donnerstag'', d4), (ascii ''Freitag'', d5)]\<rparr> ps pl th =
        Inr (n1 + n2 + n3 + n4 + n5)"
    by (rule weekly_ist_five_days)
  show "\<exists>n1 n2 n3 n4 n5.
      net_minutes_with_pause (get_week_data_day es (ascii ''Montag'')) ps pl th = Inr n1 \<and>
      net_minutes_with_pause (get_week_data_day es (ascii ''Dienstag'')) ps pl th = Inr n2 \<and>
      net_minutes_with_pause (get_week_data_day es (ascii ''Mittwoch'')) ps pl th = Inr n3 \<and>
      net_minutes_with_pause (get_week_data_day es (ascii ''Donnerstag'')) ps pl th = Inr n4 \<and>
      net_minutes_with_pause (get_week_data_day es (ascii ''Freitag'')) ps pl th = Inr n5 \<and>
      weekly_ist (get_week_data es) ps pl th = Inr (n1 + n2 + n3 + n4 + n5)"
    unfolding get_week_data_days by (rule weekly_ist_five_days)
  show "days (get_week_data es) =
     [(ascii ''Montag'', get_week_data_day es (ascii ''Montag'')),
      (ascii ''Dienstag'', get_week_data_day es (ascii ''Dienstag'')),
      (ascii ''Mittwoch'', get_week_data_day es (ascii ''Mittwoch'')),
      (ascii ''Donnerstag'', get_week_data_day es (ascii ''Donnerstag'')),
      (ascii ''Freitag'', get_week_data_day es (ascii ''Freitag''))]"
    by (simp add: get_week_data_days)
  show "days (collect_week_data carry day_vars) =
     [(ascii ''Montag'', day_vars (ascii ''Montag'')),
      (ascii ''Dienstag'', day_vars (ascii ''Dienstag'')),
      (ascii ''Mittwoch'', day_vars (ascii ''Mittwoch'')),
      (ascii ''Donnerstag'', day_vars (ascii ''Donnerstag'')),
      (ascii ''Freitag'', day_vars (ascii ''Freitag''))]"
    by (simp add: collect_week_data_def WEEKDAYS_def)
  show "get_week_data_day es day =
     (case stored_days es of
        None \<Rightarrow> DayEntry_default
      | Some ds \<Rightarrow>
          (case ds day of
             None \<Rightarrow> DayEntry_default
           | Some di \<Rightarrow>
               \<lparr>status = (case di (ascii ''status'') of None \<Rightarrow> ascii ''Arbeitstag'' | Some v \<Rightarrow> v),
                start1 = (case di (ascii ''start1'') of None \<Rightarrow> [] | Some v \<Rightarrow> v),
                end1 = (case di (ascii ''end1'') of None \<Rightarrow> [] | Some v \<Rightarrow> v),
                start2 = (case di (ascii ''start2'') of None \<Rightarrow> [] | Some v \<Rightarrow> v),
                end2 = (case di (ascii ''end2'') of None \<Rightarrow> [] | Some v \<Rightarrow> v)\<rparr>))"
    by (rule get_week_data_day_value)
  show "stored_days es = None \<or> (\<exists>ds. stored_days es = Some ds \<and> ds day = None) \<longrightarrow>
      get_week_data_day es day = DayEntry_default \<and>
      net_minutes_with_pause (get_week_data_day es day) ps pl th = Inr 0"
    by (auto simp: get_week_data_day_value net_minutes_with_pause_default)
  show "DayEntry_default =
     \<lparr>status = ascii ''Arbeitstag'', start1 = [], end1 = [], start2 = [], end2 = []\<rparr>"
    by (simp add: DayEntry_default_def)
  show "net_minutes_with_pause DayEntry_default ps pl th = Inr 0"
    by (rule net_minutes_with_pause_default)
  show "map fst (days WeekEmployeeData_default) =
     [ascii ''Montag'', ascii ''Dienstag'', ascii ''Mittwoch'', ascii ''Donnerstag'',
      ascii ''Freitag'']"
    by (simp add: WeekEmployeeData_default_def)
  show "weekly_ist WeekEmployeeData_default ps pl th = Inr 0"
    by (simp add: weekly_ist_def WeekEmployeeData_default_def net_minutes_with_pause_default)
qed

text \<open>
  A store that holds 08:00 to 18:00 for Montag and nothing else: Dienstag is the default
  entry, Montag is read back with its times, and the weekly sum is 600 - 45 = 555.
\<close>

theorem weekly_ist_five_weekdays_witness:
  "get_week_data_day
     \<lparr>stored_carry_prev_min = Some 0,
      stored_days =
        Some [ascii ''Montag'' \<mapsto>
                [ascii ''start1'' \<mapsto> ascii ''08:00'', ascii ''end1'' \<mapsto> ascii ''18:00'']]\<rparr>
     (ascii ''Dienstag'') = DayEntry_default \<and>
   get_week_data_day
     \<lparr>stored_carry_prev_min = Some 0,
      stored_days =
        Some [ascii ''Montag'' \<mapsto>
                [ascii ''start1'' \<mapsto> ascii ''08:00'', ascii ''end1'' \<mapsto> ascii ''18:00'']]\<rparr>
     (ascii ''Montag'') =
     \<lparr>status = ascii ''Arbeitstag'', start1 = ascii ''08:00'', end1 = ascii ''18:00'',
      start2 = [], end2 = []\<rparr> \<and>
   weekly_ist
     (get_week_data
        \<lparr>stored_carry_prev_min = Some 0,
         stored_days =
           Some [ascii ''Montag'' \<mapsto>
                   [ascii ''start1'' \<mapsto> ascii ''08:00'', ascii ''end1'' \<mapsto> ascii ''18:00'']]\<rparr>)
     30 45 555 = Inr 555"
proof -
  let ?es = "\<lparr>stored_carry_prev_min = Some 0,
      stored_days =
        Some [ascii ''Montag'' \<mapsto>
                [ascii ''start1'' \<mapsto> ascii ''08:00'', ascii ''end1'' \<mapsto> ascii ''18:00'']]\<rparr>"
  have nd: "\<exists>ds. stored_days ?es = Some ds \<and> ds (ascii ''Dienstag'') = None"
    by (simp add: ascii_def)
  have "stored_days ?es = None \<or>
          (\<exists>ds. stored_days ?es = Some ds \<and> ds (ascii ''Dienstag'') = None) \<longrightarrow>
        get_week_data_day ?es (ascii ''Dienstag'') = DayEntry_default \<and>
        net_minutes_with_pause (get_week_data_day ?es (ascii ''Dienstag'')) 30 45 555 = Inr 0"
    by (rule weekly_ist_five_weekdays
        [THEN conjunct2, THEN conjunct2, THEN conjunct2, THEN conjunct2, THEN conjunct2,
         THEN conjunct1])
  with nd have tue: "get_week_data_day ?es (ascii ''Dienstag'') = DayEntry_default"
    by blast
  have mon: "get_week_data_day ?es (ascii ''Montag'') =
     \<lparr>status = ascii ''Arbeitstag'', start1 = ascii ''08:00'', end1 = ascii ''18:00'',
      start2 = [], end2 = []\<rparr>"
    by (simp add: get_week_data_day_value ascii_def)
  have rest: "get_week_data_day ?es (ascii ''Mittwoch'') = DayEntry_default"
    "get_week_data_day ?es (ascii ''Donnerstag'') = DayEntry_default"
    "get_week_data_day ?es (ascii ''Freitag'') = DayEntry_default"
    by (simp_all add: get_week_data_day_value ascii_def)
  have n1: "net_minutes_with_pause (get_week_data_day ?es (ascii ''Montag'')) 30 45 555 = Inr 555"
    unfolding mon by (simp add: net_minutes_with_pause_def day_eval)
  have "\<exists>n1 n2 n3 n4 n5.
      net_minutes_with_pause (get_week_data_day ?es (ascii ''Montag'')) 30 45 555 = Inr n1 \<and>
      net_minutes_with_pause (get_week_data_day ?es (ascii ''Dienstag'')) 30 45 555 = Inr n2 \<and>
      net_minutes_with_pause (get_week_data_day ?es (ascii ''Mittwoch'')) 30 45 555 = Inr n3 \<and>
      net_minutes_with_pause (get_week_data_day ?es (ascii ''Donnerstag'')) 30 45 555 = Inr n4 \<and>
      net_minutes_with_pause (get_week_data_day ?es (ascii ''Freitag'')) 30 45 555 = Inr n5 \<and>
      weekly_ist (get_week_data ?es) 30 45 555 = Inr (n1 + n2 + n3 + n4 + n5)"
    by (rule weekly_ist_five_weekdays [THEN conjunct2, THEN conjunct1])
  then obtain n1 n2 n3 n4 n5 where
    "net_minutes_with_pause (get_week_data_day ?es (ascii ''Montag'')) 30 45 555 = Inr n1"
    "net_minutes_with_pause (get_week_data_day ?es (ascii ''Dienstag'')) 30 45 555 = Inr n2"
    "net_minutes_with_pause (get_week_data_day ?es (ascii ''Mittwoch'')) 30 45 555 = Inr n3"
    "net_minutes_with_pause (get_week_data_day ?es (ascii ''Donnerstag'')) 30 45 555 = Inr n4"
    "net_minutes_with_pause (get_week_data_day ?es (ascii ''Freitag'')) 30 45 555 = Inr n5"
    "weekly_ist (get_week_data ?es) 30 45 555 = Inr (n1 + n2 + n3 + n4 + n5)"
    by (elim exE conjE)
  then have "weekly_ist (get_week_data ?es) 30 45 555 = Inr 555"
    using n1 by (simp add: tue rest net_minutes_with_pause_default)
  with tue mon show ?thesis
    by (intro conjI)
qed

text \<open>
  Claim C7. Whatever texts a day entry holds in its status and its four times, and whatever
  the pause settings are, the raw minutes, the net minutes and the weekly sum are computed
  without an exception: each is a value. A time that the parser rejects makes its span add
  0. The exception arises in the parser alone, where fresh text is checked.
\<close>

theorem stored_days_never_raise:
  "(\<exists>raw net. total_minutes_raw d = Inr raw \<and> net_minutes_with_pause d ps pl th = Inr net) \<and>
   (\<exists>w. weekly_ist wed ps pl th = Inr w) \<and>
   (hhmm_to_minutes a = Inl e \<or> hhmm_to_minutes b = Inl e \<longrightarrow> span a b = Inr 0)"
proof -
  have "\<exists>raw. total_minutes_raw d = Inr raw"
    using total_minutes_raw_nonneg by blast
  moreover have "\<exists>net. net_minutes_with_pause d ps pl th = Inr net"
    using net_minutes_with_pause_nonneg by blast
  moreover have "\<exists>w. weekly_ist wed ps pl th = Inr w"
    using weekly_ist_nonneg by blast
  moreover have "hhmm_to_minutes a = Inl e \<or> hhmm_to_minutes b = Inl e \<longrightarrow> span a b = Inr 0"
    by (auto simp: span_value split: sum.splits)
  ultimately show ?thesis by blast
qed

theorem stored_days_never_raise_witness:
  "hhmm_to_minutes (ascii ''8.30'') = Inl (ValueError (format_error_message (ascii ''8.30''))) \<and>
   span (ascii ''8.30'') (ascii ''09:00'') = Inr 0"
proof -
  have e: "hhmm_to_minutes (ascii ''8.30'') =
             Inl (ValueError (format_error_message (ascii ''8.30'')))"
    by (simp add: parse_eval)
  have "hhmm_to_minutes (ascii ''8.30'') =
          Inl (ValueError (format_error_message (ascii ''8.30''))) \<or>
        hhmm_to_minutes (ascii ''09:00'') =
          Inl (ValueError (format_error_message (ascii ''8.30''))) \<longrightarrow>
        span (ascii ''8.30'') (ascii ''09:00'') = Inr 0"
    by (rule stored_days_never_raise [THEN conjunct2, THEN conjunct2])
  with e show ?thesis
    by blast
qed

section \<open>Properties of difference and carry\<close>

lemma save_all_reconcile_value:
  "weekly_ist wed (pause_short_min s) (pause_long_min s) (pause_threshold_min s) = Inr ist \<Longrightarrow>
   save_all_reconcile wed emp s =
     Inr (ist, ist - weekly_target_min emp, carry_prev_min wed + (ist - weekly_target_min emp))"
  by (simp add: save_all_reconcile_def Let_def)

lemma save_all_reconcile_flag:
  "save_all_reconcile wed emp (s\<lparr>count_vacation_as_work := flag\<rparr>) = save_all_reconcile wed emp s"
  by (simp add: save_all_reconcile_def)

lemmas week_eval =
  save_all_reconcile_def weekly_ist_def WEEKDAYS_def net_minutes_with_pause_def day_eval
  DayEntry_default_def WeekEmployeeData_default_def ensure_structure_settings_def

text \<open>
  Claim C2. For every week, employee and settings, the difference is the weekly sum minus
  the employee's weekly target and the new carry is the carry of the week plus the
  difference, when the week is saved and when it is exported. The result is a function of
  the week, the target and the pause settings: the other fields of the employee do not
  enter it.
\<close>

theorem reconcile_difference_and_carry:
  "(\<exists>ist. weekly_ist wed (pause_short_min s) (pause_long_min s) (pause_threshold_min s) = Inr ist \<and>
      save_all_reconcile wed emp s =
        Inr (ist, ist - weekly_target_min emp,
             carry_prev_min wed + (ist - weekly_target_min emp))) \<and>
   (\<exists>ist. weekly_ist (get_week_data es) (pause_short_min s) (pause_long_min s)
             (pause_threshold_min s) = Inr ist \<and>
      export_pdf_reconcile es emp s =
        Inr (ist, ist - weekly_target_min emp,
             carry_prev_min (get_week_data es) + (ist - weekly_target_min emp))) \<and>
   save_all_reconcile wed (emp\<lparr>emp_id := i, name := n, active := a, balance_min := b\<rparr>) s =
     save_all_reconcile wed emp s"
proof -
  obtain ist where ist:
    "weekly_ist wed (pause_short_min s) (pause_long_min s) (pause_threshold_min s) = Inr ist"
    using weekly_ist_nonneg by blast
  obtain ist' where ist':
    "weekly_ist (get_week_data es) (pause_short_min s) (pause_long_min s)
       (pause_threshold_min s) = Inr ist'"
    using weekly_ist_nonneg by blast
  have "export_pdf_reconcile es emp s =
        Inr (ist', ist' - weekly_target_min emp,
             carry_prev_min (get_week_data es) + (ist' - weekly_target_min emp))"
    using ist' by (simp add: export_pdf_reconcile_def Let_def)
  moreover have
    "save_all_reconcile wed (emp\<lparr>emp_id := i, name := n, active := a, balance_min := b\<rparr>) s =
     save_all_reconcile wed emp s"
    by (simp add: save_all_reconcile_value [OF ist])
  ultimately show ?thesis
    using ist ist' save_all_reconcile_value [OF ist, of emp] by blast
qed

text \<open>
  Claim C8. An employee with target 2310 and carry 0 works 08:00 to 16:30 on each of the five
  days: every day has 510 raw and 480 net minutes under threshold 555, short pause 30 and
  long pause 45; the weekly sum is 2400, the difference 90 and the new carry 90.
\<close>

theorem end_to_end_scenario:
  "total_minutes_raw
     \<lparr>status = ascii ''Arbeitstag'', start1 = ascii ''08:00'', end1 = ascii ''16:30'',
      start2 = [], end2 = []\<rparr>
   = Inr 510 \<and>
   net_minutes_with_pause
     \<lparr>status = ascii ''Arbeitstag'', start1 = ascii ''08:00'', end1 = ascii ''16:30'',
      start2 = [], end2 = []\<rparr>
     30 45 555 = Inr 480 \<and>
   save_all_reconcile
     \<lparr>carry_prev_min = 0,
      days = map (\<lambda>day. (day, \<lparr>status = ascii ''Arbeitstag'', start1 = ascii ''08:00'',
                               end1 = ascii ''16:30'', start2 = [], end2 = []\<rparr>)) WEEKDAYS\<rparr>
     \<lparr>emp_id = ascii ''emp_1'', name = ascii ''A'', weekly_target_min = 2310, active = True,
      balance_min = 0\<rparr>
     \<lparr>pause_threshold_min = 555, pause_short_min = 30, pause_long_min = 45,
      count_vacation_as_work = False\<rparr>
   = Inr (2400, 90, 90)"
  by (simp add: week_eval)

text \<open>
  Claim C9, as stated, fails: with the flag \<^verbatim>\<open>count_vacation_as_work\<close> set, a week with a
  day of each of the statuses Urlaub, Krank and Feiertag and no times on its working days
  has the weekly sum 0, the same as with the flag clear. No credit is added.
\<close>

theorem count_vacation_as_work_no_credit:
  "save_all_reconcile
     \<lparr>carry_prev_min = 0,
      days = [(ascii ''Montag'', \<lparr>status = ascii ''Urlaub'', start1 = ascii ''08:00'',
                                  end1 = ascii ''16:30'', start2 = [], end2 = []\<rparr>),
              (ascii ''Dienstag'', \<lparr>status = ascii ''Krank'', start1 = [], end1 = [],
                                    start2 = [], end2 = []\<rparr>),
              (ascii ''Mittwoch'', \<lparr>status = ascii ''Feiertag'', start1 = [], end1 = [],
                                    start2 = [], end2 = []\<rparr>),
              (ascii ''Donnerstag'', DayEntry_default), (ascii ''Freitag'', DayEntry_default)]\<rparr>
     \<lparr>emp_id = ascii ''emp_1'', name = ascii ''A'', weekly_target_min = 2310, active = True,
      balance_min = 0\<rparr>
     \<lparr>pause_threshold_min = 555, pause_short_min = 30, pause_long_min = 45,
      count_vacation_as_work = True\<rparr>
   = Inr (0, - 2310, - 2310) \<and>
   save_all_reconcile
     \<lparr>carry_prev_min = 0,
      days = [(ascii ''Montag'', \<lparr>status = ascii ''Urlaub'', start1 = ascii ''08:00'',
                                  end1 = ascii ''16:30'', start2 = [], end2 = []\<rparr>),
              (ascii ''Dienstag'', \<lparr>status = ascii ''Krank'', start1 = [], end1 = [],
                                    start2 = [], end2 = []\<rparr>),
              (ascii ''Mittwoch'', \<lparr>status = ascii ''Feiertag'', start1 = [], end1 = [],
                                    start2 = [], end2 = []\<rparr>),
              (ascii ''Donnerstag'', DayEntry_default), (ascii ''Freitag'', DayEntry_default)]\<rparr>
     \<lparr>emp_id = ascii ''emp_1'', name = ascii ''A'', weekly_target_min = 2310, active = True,
      balance_min = 0\<rparr>
     \<lparr>pause_threshold_min = 555, pause_short_min = 30, pause_long_min = 45,
      count_vacation_as_work = False\<rparr>
   = Inr (0, - 2310, - 2310)"
  by (simp add: week_eval)

lemma ascii_status_neq:
  "ascii ''Urlaub'' \<noteq> ascii ''Arbeitstag''" "ascii ''Krank'' \<noteq> ascii ''Arbeitstag''"
  "ascii ''Feiertag'' \<noteq> ascii ''Arbeitstag''"
  by (simp_all add: ascii_def)

text \<open>
  Claim C9, amended. The flag \<^verbatim>\<open>count_vacation_as_work\<close> does not enter the computation:
  weekly sum, difference and new carry are the same whether it is set or clear, and a day
  with status Urlaub, Krank or Feiertag adds 0 in either case.
\<close>

theorem count_vacation_as_work_ignored:
  "save_all_reconcile wed emp (s\<lparr>count_vacation_as_work := flag\<rparr>) =
     save_all_reconcile wed emp s \<and>
   export_pdf_reconcile es emp (s\<lparr>count_vacation_as_work := flag\<rparr>) =
     export_pdf_reconcile es emp s \<and>
   net_minutes_with_pause (d\<lparr>status := ascii ''Urlaub''\<rparr>) ps pl th = Inr 0 \<and>
   net_minutes_with_pause (d\<lparr>status := ascii ''Krank''\<rparr>) ps pl th = Inr 0 \<and>
   net_minutes_with_pause (d\<lparr>status := ascii ''Feiertag''\<rparr>) ps pl th = Inr 0"
  by (simp add: save_all_reconcile_flag export_pdf_reconcile_def net_minutes_with_pause_def
      ascii_status_neq)

text \<open>
  Claim C10. For every day entry and all pause settings, also pauses longer than the raw
  span, the raw minutes and the net minutes are at least 0, and so is the weekly sum of
  every week. Difference and carry can be negative: for the default week and a target of
  2310 both are.
\<close>

theorem minutes_nonneg:
  "(\<exists>raw. total_minutes_raw d = Inr raw \<and> 0 \<le> raw) \<and>
   (\<exists>net. net_minutes_with_pause d ps pl th = Inr net \<and> 0 \<le> net) \<and>
   (\<exists>w. weekly_ist wed ps pl th = Inr w \<and> 0 \<le> w) \<and>
   (\<exists>ist diff new_carry.
      save_all_reconcile WeekEmployeeData_default
        \<lparr>emp_id = ascii ''emp_1'', name = ascii ''A'', weekly_target_min = 2310, active = True,
         balance_min = 0\<rparr>
        ensure_structure_settings = Inr (ist, diff, new_carry) \<and> diff < 0 \<and> new_carry < 0)"
proof -
  have "save_all_reconcile WeekEmployeeData_default
        \<lparr>emp_id = ascii ''emp_1'', name = ascii ''A'', weekly_target_min = 2310, active = True,
         balance_min = 0\<rparr>
        ensure_structure_settings = Inr (0, - 2310, - 2310)"
    by (simp add: week_eval)
  then show ?thesis
    using total_minutes_raw_nonneg net_minutes_with_pause_nonneg weekly_ist_nonneg by simp
qed

end
